theory Spec2Isabelle
  imports Complex_Main
begin

section \<open>Tables\<close>

text \<open>
  The pipeline of \<^verbatim>\<open>etl_tibc.py\<close> works on pandas DataFrames. A DataFrame is
  modelled column-wise, as pandas stores it: the length of its index (the number of rows)
  and the list of its labelled columns, in order. Column labels may repeat (renaming can
  make two labels equal), so the columns are an association list and not a map.

  A cell holds what a table read from CSV text, or produced by the conversions below, can
  hold: text, a number, a timestamp, or a missing value (NaN, NaT and None are not told
  apart). Numbers are the exact value written by a decimal literal, or an infinity;
  rounding to binary64 is not modelled. Boolean cells are not modelled.
\<close>

datatype number = Finite rat | PosInf | NegInf

datatype timestamp = Timestamp (year: nat) (month: nat) (day: nat)

datatype cell = Text string | Number number | Datetime timestamp | Missing

record dataframe =
  nrows :: nat
  cols :: "(string \<times> cell list) list"

definition DataFrame :: dataframe where
  \<comment> \<open>\<^verbatim>\<open>pd.DataFrame()\<close>: no rows, no columns\<close>
  "DataFrame = \<lparr>nrows = 0, cols = []\<rparr>"

definition empty :: "dataframe \<Rightarrow> bool" where
  \<comment> \<open>\<^verbatim>\<open>df.empty\<close>: true when any axis has length 0\<close>
  "empty df = (nrows df = 0 \<or> cols df = [])"


definition labels :: "dataframe \<Rightarrow> string list" where
  "labels df = map fst (cols df)"

datatype exn =
    KeyError | ValueError | AttributeError | TypeError
  | RequestException | HTTPError
  | EmptyDataError | ParserError
  | SqliteError | DatabaseError
  | OSError

datatype selection = NoColumn | Series "cell list" | Frame

definition getitem :: "dataframe \<Rightarrow> string \<Rightarrow> selection" where
  \<comment> \<open>\<^verbatim>\<open>df[name]\<close>: KeyError without such a label, a Series for one column, a
     DataFrame when the label repeats\<close>
  "getitem df name =
     (case filter (\<lambda>nc. fst nc = name) (cols df) of
        [] \<Rightarrow> NoColumn
      | [nc] \<Rightarrow> Series (snd nc)
      | _ \<Rightarrow> Frame)"

definition setitem :: "dataframe \<Rightarrow> string \<Rightarrow> cell list \<Rightarrow> dataframe" where
  \<comment> \<open>\<^verbatim>\<open>df[name] = series\<close>: replaces the column in place, or appends a new one\<close>
  "setitem df name cs =
     (if name \<in> set (labels df)
      then df\<lparr>cols := map (\<lambda>nc. if fst nc = name then (name, cs) else nc) (cols df)\<rparr>
      else df\<lparr>cols := cols df @ [(name, cs)]\<rparr>)"

definition rename :: "(string \<times> string) list \<Rightarrow> dataframe \<Rightarrow> dataframe" where
  \<comment> \<open>\<^verbatim>\<open>df.rename(columns=mapping)\<close>: labels outside the mapping pass through\<close>
  "rename mapping df =
     df\<lparr>cols := map (\<lambda>nc. (case map_of mapping (fst nc) of Some n \<Rightarrow> n | None \<Rightarrow> fst nc, snd nc))
                     (cols df)\<rparr>"

section \<open>Parsing numbers: \<^verbatim>\<open>pd.to_numeric(..., errors='coerce')\<close>\<close>

text \<open>
  pandas parses a string with its C routine \<^verbatim>\<open>xstrtod\<close>: optional white space, an
  optional sign, decimal digits with an optional point (at least one digit in all), an
  optional exponent, optional white space, and nothing else. The decimal separator is the
  point. When that fails the spellings of infinity are tried, without regard to case.
\<close>

definition isspace_ascii :: "char \<Rightarrow> bool" where
  "isspace_ascii c = (c \<in> set [CHR '' '', CHR 0x09, CHR 0x0A, CHR 0x0B, CHR 0x0C, CHR 0x0D])"

definition isdigit_ascii :: "char \<Rightarrow> bool" where
  "isdigit_ascii c = (c \<in> set ''0123456789'')"

definition digit_value :: "char \<Rightarrow> nat" where
  "digit_value c = of_char c - 48"

definition digits_value :: "string \<Rightarrow> nat" where
  "digits_value ds = foldl (\<lambda>a c. 10 * a + digit_value c) 0 ds"

definition take_sign :: "string \<Rightarrow> bool \<times> string" where
  "take_sign s =
     (case s of
        [] \<Rightarrow> (False, [])
      | c # r \<Rightarrow> if c = CHR ''-'' then (True, r) else if c = CHR ''+'' then (False, r) else (False, s))"

definition take_fraction :: "string \<Rightarrow> string \<times> string" where
  "take_fraction s =
     (case s of
        [] \<Rightarrow> ([], [])
      | c # r \<Rightarrow> if c = CHR ''.'' then (takeWhile isdigit_ascii r, dropWhile isdigit_ascii r)
                else ([], s))"

definition take_exponent :: "string \<Rightarrow> int \<times> string" where
  \<comment> \<open>an \<^verbatim>\<open>e\<close> without digits after it is not consumed\<close>
  "take_exponent s =
     (case s of
        [] \<Rightarrow> (0, [])
      | c # r \<Rightarrow>
          if c = CHR ''e'' \<or> c = CHR ''E'' then
            (let (neg, r1) = take_sign r; ed = takeWhile isdigit_ascii r1
             in if ed = [] then (0, s)
                else (if neg then - int (digits_value ed) else int (digits_value ed),
                      dropWhile isdigit_ascii r1))
          else (0, s))"

definition scale10 :: "rat \<Rightarrow> int \<Rightarrow> rat" where
  "scale10 m e = (if 0 \<le> e then m * 10 ^ nat e else m / 10 ^ nat (- e))"

definition xstrtod :: "string \<Rightarrow> rat option" where
  "xstrtod s =
     (let (neg, s2) = take_sign (dropWhile isspace_ascii s);
          ip = takeWhile isdigit_ascii s2;
          (fp, s4) = take_fraction (dropWhile isdigit_ascii s2)
      in if ip = [] \<and> fp = [] then None
         else
           (let (ex, s5) = take_exponent s4;
                v = scale10 (of_nat (digits_value (ip @ fp)) / 10 ^ length fp) ex
            in if dropWhile isspace_ascii s5 = [] then Some (if neg then - v else v) else None))"

definition tolower :: "char \<Rightarrow> char" where
  "tolower c = (if c \<in> set ''ABCDEFGHIJKLMNOPQRSTUVWXYZ'' then char_of (of_char c + (32::nat)) else c)"

definition floatify :: "string \<Rightarrow> number option" where
  "floatify s =
     (case xstrtod s of
        Some v \<Rightarrow> Some (Finite v)
      | None \<Rightarrow>
          (let l = map tolower s
           in if l \<in> set [''inf'', ''+inf'', ''infinity'', ''+infinity''] then Some PosInf
              else if l \<in> set [''-inf'', ''-infinity''] then Some NegInf
              else None))"

definition to_numeric_coerce :: "cell \<Rightarrow> cell" where
  \<comment> \<open>one element of \<^verbatim>\<open>pd.to_numeric(series, errors='coerce')\<close>\<close>
  "to_numeric_coerce c =
     (case c of
        Text s \<Rightarrow> (case floatify s of Some v \<Rightarrow> Number v | None \<Rightarrow> Missing)
      | Number v \<Rightarrow> Number v
      | Datetime t \<Rightarrow> Missing
      | Missing \<Rightarrow> Missing)"

section \<open>Parsing dates: \<^verbatim>\<open>pd.to_datetime(..., format='%d/%m/%Y')\<close>\<close>

text \<open>
  With a format, pandas matches each string against the regular expression of the format,
  as Python's \<^verbatim>\<open>strptime\<close> does, and the whole string has to match: the day is
  \<^verbatim>\<open>3[0-1]|[1-2]\d|0[1-9]|[1-9]| [1-9]\<close>, the month \<^verbatim>\<open>1[0-2]|0[1-9]|[1-9]\<close>, the
  year four digits; then the date has to exist in the calendar. The bounds of the
  nanosecond timestamp range are not modelled.
\<close>

definition split_slash :: "string \<Rightarrow> (string \<times> string) option" where
  \<comment> \<open>the text before the first \<^verbatim>\<open>/\<close> and the text after it\<close>
  "split_slash s =
     (case dropWhile (\<lambda>c. c \<noteq> CHR ''/'') s of
        [] \<Rightarrow> None
      | c # r \<Rightarrow> Some (takeWhile (\<lambda>c. c \<noteq> CHR ''/'') s, r))"

definition day_field :: "string \<Rightarrow> nat option" where
  "day_field s =
     (case s of
        [a] \<Rightarrow> if isdigit_ascii a \<and> a \<noteq> CHR ''0'' then Some (digit_value a) else None
      | [a, b] \<Rightarrow>
          if a = CHR '' '' \<and> isdigit_ascii b \<and> b \<noteq> CHR ''0'' then Some (digit_value b)
          else if isdigit_ascii a \<and> isdigit_ascii b \<and> 1 \<le> digits_value s \<and> digits_value s \<le> 31
          then Some (digits_value s)
          else None
      | _ \<Rightarrow> None)"

definition month_field :: "string \<Rightarrow> nat option" where
  "month_field s =
     (case s of
        [a] \<Rightarrow> if isdigit_ascii a \<and> a \<noteq> CHR ''0'' then Some (digit_value a) else None
      | [a, b] \<Rightarrow>
          if isdigit_ascii a \<and> isdigit_ascii b \<and> 1 \<le> digits_value s \<and> digits_value s \<le> 12
          then Some (digits_value s)
          else None
      | _ \<Rightarrow> None)"

definition year_field :: "string \<Rightarrow> nat option" where
  "year_field s =
     (if length s = 4 \<and> list_all isdigit_ascii s then Some (digits_value s) else None)"

definition is_leap :: "nat \<Rightarrow> bool" where
  "is_leap y = (y mod 4 = 0 \<and> (y mod 100 \<noteq> 0 \<or> y mod 400 = 0))"

definition days_in_month :: "nat \<Rightarrow> nat \<Rightarrow> nat" where
  "days_in_month y m =
     (if m = 2 then (if is_leap y then 29 else 28)
      else if m \<in> set [4, 6, 9, 11] then 30 else 31)"

definition strptime_dmY :: "string \<Rightarrow> timestamp option" where
  \<comment> \<open>one string against the format \<^verbatim>\<open>%d/%m/%Y\<close>\<close>
  "strptime_dmY s =
     (case split_slash s of
        None \<Rightarrow> None
      | Some (ds, r) \<Rightarrow>
          (case split_slash r of
             None \<Rightarrow> None
           | Some (ms, ys) \<Rightarrow>
               (case (day_field ds, month_field ms, year_field ys) of
                  (Some d, Some m, Some y) \<Rightarrow>
                    if 1 \<le> y \<and> d \<le> days_in_month y m then Some (Timestamp y m d) else None
                | _ \<Rightarrow> None)))"

definition nat_strings :: "string list" where
  \<comment> \<open>texts that pandas reads as a missing timestamp, besides the empty string\<close>
  "nat_strings = [''NaT'', ''nat'', ''NAT'', ''nan'', ''NaN'', ''NAN'']"

definition array_strptime :: "cell \<Rightarrow> cell option" where
  \<comment> \<open>one element of the conversion; \<open>None\<close> when it does not match the format. A missing
     value and an empty or NaT-like text give NaT without an error; a number is matched
     through its text, which has no \<^verbatim>\<open>/\<close>.\<close>
  "array_strptime c =
     (case c of
        Missing \<Rightarrow> Some Missing
      | Datetime t \<Rightarrow> Some (Datetime t)
      | Number v \<Rightarrow> None
      | Text s \<Rightarrow>
          if s = [] \<or> s \<in> set nat_strings then Some Missing
          else map_option Datetime (strptime_dmY s))"

definition to_datetime_raise :: "cell list \<Rightarrow> exn + cell list" where
  \<comment> \<open>\<^verbatim>\<open>pd.to_datetime(series, format='%d/%m/%Y')\<close>: the first element that does not
     match raises ValueError for the whole call\<close>
  "to_datetime_raise cs =
     (if list_all (\<lambda>c. array_strptime c \<noteq> None) cs
      then Inr (map (\<lambda>c. the (array_strptime c)) cs)
      else Inl ValueError)"

definition to_datetime_coerce :: "cell list \<Rightarrow> cell list" where
  \<comment> \<open>\<^verbatim>\<open>pd.to_datetime(series, errors='coerce', format='%d/%m/%Y')\<close>: an element that does
     not match becomes NaT\<close>
  "to_datetime_coerce cs =
     map (\<lambda>c. case array_strptime c of Some d \<Rightarrow> d | None \<Rightarrow> Missing) cs"

section \<open>\<^verbatim>\<open>transform_data\<close>\<close>

definition column_mapping :: "(string \<times> string) list" where
  "column_mapping =
     [(''RESOLUCION'', ''resolucion_id''),
      (''FECHA_RESOLUCION'', ''fecha_resolucion''),
      (''VIGENCIA_DESDE'', ''vigencia_desde''),
      (''VIGENCIA_HASTA'', ''vigencia_hasta''),
      (''INTERES_BANCARIO_CORRIENTE'', ''tasa_interes_ea''),
      (''MODALIDAD'', ''tipo_credito_nombre'')]"

definition except_Exception :: "dataframe \<Rightarrow> exn + dataframe \<Rightarrow> dataframe" where
  \<comment> \<open>\<^verbatim>\<open>try: ... except Exception: print(...)\<close>: on an exception the table stays as it was
     before the block\<close>
  "except_Exception df r = (case r of Inl e \<Rightarrow> df | Inr df' \<Rightarrow> df')"

definition convert_fecha_resolucion :: "dataframe \<Rightarrow> exn + dataframe" where
  \<comment> \<open>line 76; on a DataFrame (repeated label) \<^verbatim>\<open>pd.to_datetime\<close> raises ValueError\<close>
  "convert_fecha_resolucion df =
     (case getitem df ''fecha_resolucion'' of
        NoColumn \<Rightarrow> Inl KeyError
      | Frame \<Rightarrow> Inl ValueError
      | Series cs \<Rightarrow>
          (case to_datetime_raise cs of
             Inl e \<Rightarrow> Inl e
           | Inr ds \<Rightarrow> Inr (setitem df ''fecha_resolucion'' ds)))"

definition convert_vigencia :: "string \<Rightarrow> dataframe \<Rightarrow> exn + dataframe" where
  \<comment> \<open>lines 85 and 91, for \<^verbatim>\<open>vigencia_desde\<close> and \<^verbatim>\<open>vigencia_hasta\<close>\<close>
  "convert_vigencia name df =
     (case getitem df name of
        NoColumn \<Rightarrow> Inl KeyError
      | Frame \<Rightarrow> Inl ValueError
      | Series cs \<Rightarrow> Inr (setitem df name (to_datetime_coerce cs)))"

definition str_replace_percent :: "string \<Rightarrow> string" where
  \<comment> \<open>\<^verbatim>\<open>.str.replace('%', '', regex=False)\<close>: every occurrence is removed\<close>
  "str_replace_percent s = filter (\<lambda>c. c \<noteq> CHR ''%'') s"

definition tasa_cell :: "cell \<Rightarrow> cell" where
  \<comment> \<open>lines 99 and 100 on one element: \<^verbatim>\<open>astype(str)\<close>, the replacement, then
     \<^verbatim>\<open>pd.to_numeric(..., errors='coerce')\<close>. The text of a number has no \<^verbatim>\<open>%\<close> and
     reads back as the number; the text of a missing value (\<^verbatim>\<open>nan\<close>) and the text of a
     timestamp are not number literals.\<close>
  "tasa_cell c =
     (case c of
        Text s \<Rightarrow> to_numeric_coerce (Text (str_replace_percent s))
      | Number v \<Rightarrow> Number v
      | Datetime t \<Rightarrow> Missing
      | Missing \<Rightarrow> Missing)"

definition convert_tasa_interes_ea :: "dataframe \<Rightarrow> exn + dataframe" where
  \<comment> \<open>lines 99 and 100; a DataFrame (repeated label) has no \<^verbatim>\<open>.str\<close>\<close>
  "convert_tasa_interes_ea df =
     (case getitem df ''tasa_interes_ea'' of
        NoColumn \<Rightarrow> Inl KeyError
      | Frame \<Rightarrow> Inl AttributeError
      | Series cs \<Rightarrow> Inr (setitem df ''tasa_interes_ea'' (map tasa_cell cs)))"

definition transform_data :: "dataframe \<Rightarrow> dataframe" where
  "transform_data df =
     (if empty df then DataFrame
      else
        (let df0 = rename column_mapping df;
             df1 = except_Exception df0 (convert_fecha_resolucion df0);
             df2 = except_Exception df1 (convert_vigencia ''vigencia_desde'' df1);
             df3 = except_Exception df2 (convert_vigencia ''vigencia_hasta'' df2);
             df4 = except_Exception df3 (convert_tasa_interes_ea df3)
         in df4))"

section \<open>\<^verbatim>\<open>extract_data\<close>\<close>

text \<open>
  \<^verbatim>\<open>requests.get\<close> and \<^verbatim>\<open>pd.read_csv\<close> are library calls. The outcome of the GET
  is an input of the model: either the call raised, or it returned a response with a
  status code and a body. The CSV reader is a parameter: for a body it raises or gives a
  table. Exceptions are the subclasses of \<^verbatim>\<open>Exception\<close> that occur;
  \<^verbatim>\<open>HTTPError\<close> is a \<^verbatim>\<open>RequestException\<close>.
\<close>

datatype get_result = Raised exn | Response (status_code: nat) (body: string)

definition raise_for_status :: "nat \<Rightarrow> exn option" where
  \<comment> \<open>raises for the client and server error codes, 400 to 599\<close>
  "raise_for_status st = (if 400 \<le> st \<and> st < 600 then Some HTTPError else None)"

definition is_RequestException :: "exn \<Rightarrow> bool" where
  "is_RequestException e = (e = RequestException \<or> e = HTTPError)"

definition extract_try :: "(string \<Rightarrow> exn + dataframe) \<Rightarrow> get_result \<Rightarrow> exn + dataframe" where
  \<comment> \<open>the body of the \<^verbatim>\<open>try\<close>, lines 22 to 29\<close>
  "extract_try read_csv g =
     (case g of
        Raised e \<Rightarrow> Inl e
      | Response st text \<Rightarrow>
          (case raise_for_status st of
             Some e \<Rightarrow> Inl e
           | None \<Rightarrow> read_csv text))"

definition extract_data :: "(string \<Rightarrow> exn + dataframe) \<Rightarrow> get_result \<Rightarrow> exn + dataframe" where
  \<comment> \<open>\<open>Inl\<close> would be an exception that reaches the caller; the three handlers are taken
     in the order of the source\<close>
  "extract_data read_csv g =
     (case extract_try read_csv g of
        Inr df \<Rightarrow> Inr df
      | Inl e \<Rightarrow>
          if is_RequestException e then Inr DataFrame
          else if e = EmptyDataError then Inr DataFrame
          else Inr DataFrame)"

section \<open>\<^verbatim>\<open>load_data\<close>\<close>

text \<open>
  The storage is the set of SQLite files, each a map from table names to tables, together
  with two counters of connections: those open now, and those ever opened. A stored table
  keeps the cells of the DataFrame; how SQLite encodes them (timestamps as text) is not
  modelled. Whether SQLite fails is an input of the model; a failed write leaves the file
  as it was (partial writes are not modelled).
\<close>

type_synonym database = "string \<rightharpoonup> dataframe"

record storage =
  files :: "string \<rightharpoonup> database"
  open_connections :: nat
  connections_opened :: nat

datatype fault = NoFault | ConnectFails | WriteFails

datatype if_exists = Fail | Replace | Append

definition connect :: "fault \<Rightarrow> string \<Rightarrow> storage \<Rightarrow> exn + storage" where
  \<comment> \<open>\<^verbatim>\<open>sqlite3.connect(db_name)\<close>: creates the file when it does not exist\<close>
  "connect f db_name st =
     (if f = ConnectFails then Inl SqliteError
      else Inr (st\<lparr>files := (case files st db_name of
                                None \<Rightarrow> (files st)(db_name \<mapsto> Map.empty)
                              | Some db \<Rightarrow> files st),
                   open_connections := Suc (open_connections st),
                   connections_opened := Suc (connections_opened st)\<rparr>))"

definition close :: "storage \<Rightarrow> storage" where
  "close st = st\<lparr>open_connections := open_connections st - 1\<rparr>"

definition with_index :: "bool \<Rightarrow> dataframe \<Rightarrow> dataframe" where
  \<comment> \<open>\<^verbatim>\<open>index=True\<close> writes the row index as a first column named \<^verbatim>\<open>index\<close>\<close>
  "with_index index df =
     (if index
      then df\<lparr>cols := (''index'', map (\<lambda>i. Number (Finite (of_nat i))) [0..<nrows df]) # cols df\<rparr>
      else df)"

definition append_rows :: "dataframe \<Rightarrow> dataframe \<Rightarrow> dataframe" where
  "append_rows old new =
     \<lparr>nrows = nrows old + nrows new,
      cols = map (\<lambda>(a, b). (fst a, snd a @ snd b)) (zip (cols old) (cols new))\<rparr>"

definition to_sql :: "fault \<Rightarrow> dataframe \<Rightarrow> string \<Rightarrow> if_exists \<Rightarrow> bool \<Rightarrow> database \<Rightarrow> exn + database" where
  \<comment> \<open>\<^verbatim>\<open>df.to_sql(table_name, conn, if_exists=..., index=...)\<close>\<close>
  "to_sql f df table_name mode index db =
     (let new = with_index index df
      in if f = WriteFails then Inl SqliteError
         else if \<not> distinct (labels new) then Inl ValueError
         else
           (case db table_name of
              None \<Rightarrow> Inr (db(table_name \<mapsto> new))
            | Some old \<Rightarrow>
                (case mode of
                   Fail \<Rightarrow> Inl ValueError
                 | Replace \<Rightarrow> Inr (db(table_name \<mapsto> new))
                 | Append \<Rightarrow>
                     if labels old = labels new
                     then Inr (db(table_name \<mapsto> append_rows old new))
                     else Inl SqliteError)))"

definition load_try :: "fault \<Rightarrow> dataframe \<Rightarrow> string \<Rightarrow> string \<Rightarrow> storage \<Rightarrow> bool \<times> exn option \<times> storage" where
  \<comment> \<open>the body of the \<^verbatim>\<open>try\<close>, lines 134 to 142: whether \<^verbatim>\<open>conn\<close> was assigned, the
     exception that ended the block, and the storage\<close>
  "load_try f df db_name table_name st =
     (case connect f db_name st of
        Inl e \<Rightarrow> (False, Some e, st)
      | Inr st1 \<Rightarrow>
          (case files st1 db_name of
             None \<Rightarrow> (True, Some SqliteError, st1)
           | Some db \<Rightarrow>
               (case to_sql f df table_name Replace False db of
                  Inl e \<Rightarrow> (True, Some e, st1)
                | Inr db' \<Rightarrow> (True, None, st1\<lparr>files := (files st1)(db_name \<mapsto> db')\<rparr>))))"

definition load_data :: "fault \<Rightarrow> dataframe \<Rightarrow> string \<Rightarrow> string \<Rightarrow> storage \<Rightarrow> exn option \<times> storage" where
  \<comment> \<open>the first component is the exception that reaches the caller, if any: the handler
     of \<^verbatim>\<open>sqlite3.Error\<close> and the handler of \<^verbatim>\<open>Exception\<close> both only print; the
     \<^verbatim>\<open>finally\<close> block closes \<^verbatim>\<open>conn\<close> when it was assigned\<close>
  "load_data f df db_name table_name st =
     (if empty df then (None, st)
      else
        (let (conn, raised, st1) = load_try f df db_name table_name st;
             propagated = (case raised of
                             None \<Rightarrow> None
                           | Some e \<Rightarrow> if e = SqliteError then None else None);
             st2 = (if conn then close st1 else st1)
         in (propagated, st2)))"

definition etl_main :: "(string \<Rightarrow> exn + dataframe) \<Rightarrow> get_result \<Rightarrow> fault \<Rightarrow> storage \<Rightarrow> exn option \<times> storage" where
  \<comment> \<open>the script, lines 155 to 199\<close>
  "etl_main read_csv g f st =
     (case extract_data read_csv g of
        Inl e \<Rightarrow> (Some e, st)
      | Inr df_raw \<Rightarrow>
          if \<not> empty df_raw then
            (let df_transformed = transform_data df_raw
             in if \<not> empty df_transformed
                then load_data f df_transformed ''tibc_data.db'' ''tasas_interes_bancario'' st
                else (None, st))
          else (None, st))"

section \<open>The script \<^verbatim>\<open>visualizacion_tibc.py\<close>\<close>

text \<open>
  The inputs of the script are whether the database file exists, what reading the table
  gives (lines 39 to 42: an exception or a table), the library's date conversion without
  a format (\<^verbatim>\<open>pd.to_datetime(series, errors='coerce')\<close>, a parameter on columns), and
  for each of the three charts the exception that drawing or saving it raises, if any.
  The result is the exit status of the process and the closing messages it printed.
  \<^verbatim>\<open>sys.exit\<close> raises \<^verbatim>\<open>SystemExit\<close>, which is not an \<^verbatim>\<open>Exception\<close>: the
  handlers of the script let it through.
\<close>

datatype message =
    FatalNoDatabase | WarnEmpty | WarnEmptyAfterDropna
  | ErrorSqlite | ErrorDataFrame | ErrorUnexpected | Success

datatype control = SystemExit nat | Exception exn

definition and_then :: "exn + 'a \<Rightarrow> ('a \<Rightarrow> exn + 'b) \<Rightarrow> exn + 'b" where
  \<comment> \<open>statements in sequence: the first exception ends the block\<close>
  "and_then r k = (case r of Inl e \<Rightarrow> Inl e | Inr x \<Rightarrow> k x)"

definition coerce_column :: "(cell list \<Rightarrow> cell list) \<Rightarrow> exn \<Rightarrow> string \<Rightarrow> dataframe \<Rightarrow> exn + dataframe" where
  \<comment> \<open>\<^verbatim>\<open>df[name] = convert(df[name], errors='coerce')\<close>; the second argument is what the
     conversion raises on a DataFrame (repeated label)\<close>
  "coerce_column convert on_frame name df =
     (case getitem df name of
        NoColumn \<Rightarrow> Inl KeyError
      | Frame \<Rightarrow> Inl on_frame
      | Series cs \<Rightarrow> Inr (setitem df name (convert cs)))"

definition convert_types :: "(cell list \<Rightarrow> cell list) \<Rightarrow> dataframe \<Rightarrow> exn + dataframe" where
  \<comment> \<open>lines 53 to 56\<close>
  "convert_types to_datetime df =
     and_then (coerce_column to_datetime ValueError ''fecha_resolucion'' df) (\<lambda>df1.
     and_then (coerce_column to_datetime ValueError ''vigencia_desde'' df1) (\<lambda>df2.
     and_then (coerce_column to_datetime ValueError ''vigencia_hasta'' df2) (\<lambda>df3.
     coerce_column (map to_numeric_coerce) TypeError ''tasa_interes_ea'' df3)))"

definition compress :: "bool list \<Rightarrow> 'a list \<Rightarrow> 'a list" where
  "compress keep xs = map snd (filter fst (zip keep xs))"

definition dropna :: "string \<Rightarrow> string \<Rightarrow> dataframe \<Rightarrow> exn + dataframe" where
  \<comment> \<open>\<^verbatim>\<open>df.dropna(subset=[a, b])\<close>: keeps the rows with a value in both columns\<close>
  "dropna a b df =
     (case (map_of (cols df) a, map_of (cols df) b) of
        (Some ca, Some cb) \<Rightarrow>
          (let keep = map (\<lambda>(x, y). x \<noteq> Missing \<and> y \<noteq> Missing) (zip ca cb)
           in Inr \<lparr>nrows = length (filter (\<lambda>k. k) keep),
                   cols = map (\<lambda>nc. (fst nc, compress keep (snd nc))) (cols df)\<rparr>)
      | _ \<Rightarrow> Inl KeyError)"

definition chart :: "string list \<Rightarrow> exn option \<Rightarrow> dataframe \<Rightarrow> exn + dataframe" where
  \<comment> \<open>one chart: seaborn raises ValueError for a column that the table does not have;
     otherwise drawing and saving may raise\<close>
  "chart needed render df =
     (if \<not> list_all (\<lambda>n. n \<in> set (labels df)) needed then Inl ValueError
      else case render of Some e \<Rightarrow> Inl e | None \<Rightarrow> Inr df)"

definition charts :: "(nat \<Rightarrow> exn option) \<Rightarrow> dataframe \<Rightarrow> exn + dataframe" where
  \<comment> \<open>lines 75 to 115; the table is not empty here, so the third chart is drawn\<close>
  "charts render df =
     and_then (chart [''fecha_resolucion'', ''tasa_interes_ea''] (render 1) df) (\<lambda>_.
     and_then (chart [''tipo_credito_nombre'', ''tasa_interes_ea''] (render 2) df) (\<lambda>_.
     chart [''tasa_interes_ea'', ''tipo_credito_nombre''] (render 3) df))"

definition visualizacion_try ::
  "(cell list \<Rightarrow> cell list) \<Rightarrow> exn + dataframe \<Rightarrow> (nat \<Rightarrow> exn option) \<Rightarrow> message list \<times> control option" where
  \<comment> \<open>the body of the \<^verbatim>\<open>try\<close>, lines 37 to 115: the messages printed and how the block
     was left (\<open>None\<close>: it ran to its end)\<close>
  "visualizacion_try to_datetime read render =
     (case read of
        Inl e \<Rightarrow> ([], Some (Exception e))
      | Inr df \<Rightarrow>
          if empty df then ([WarnEmpty], Some (SystemExit 0))
          else
            (case and_then (convert_types to_datetime df)
                           (dropna ''fecha_resolucion'' ''tasa_interes_ea'') of
               Inl e \<Rightarrow> ([], Some (Exception e))
             | Inr df2 \<Rightarrow>
                 if empty df2 then ([WarnEmptyAfterDropna], Some (SystemExit 0))
                 else
                   (case charts render df2 of
                      Inl e \<Rightarrow> ([], Some (Exception e))
                    | Inr _ \<Rightarrow> ([], None))))"

definition visualizacion ::
  "bool \<Rightarrow> (cell list \<Rightarrow> cell list) \<Rightarrow> exn + dataframe \<Rightarrow> (nat \<Rightarrow> exn option) \<Rightarrow> nat \<times> message list" where
  \<comment> \<open>the whole script: the check of line 28, the \<^verbatim>\<open>try\<close> with its three handlers in
     the order of the source, and the normal end of the process\<close>
  "visualizacion db_exists to_datetime read render =
     (if \<not> db_exists then (1, [FatalNoDatabase])
      else
        (case visualizacion_try to_datetime read render of
           (msgs, Some (SystemExit n)) \<Rightarrow> (n, msgs)
         | (msgs, Some (Exception e)) \<Rightarrow>
             if e = SqliteError then (1, msgs @ [ErrorSqlite])
             else if e = EmptyDataError then (1, msgs @ [ErrorDataFrame])
             else (1, msgs @ [ErrorUnexpected])
         | (msgs, None) \<Rightarrow> (0, msgs @ [Success])))"

section \<open>Columns under assignment\<close>













subsection \<open>The four conversion steps\<close>











subsection \<open>The columns of the transformed table\<close>







section \<open>The claims about \<^verbatim>\<open>transform_data\<close>\<close>

text \<open>
  C10. For every input table with zero rows, \<^verbatim>\<open>transform_data\<close> returns a fresh empty
  table with no columns at all: a zero-row input that still carries column headers loses
  its whole column schema, its columns are not renamed and kept.
\<close>

theorem transform_data_zero_rows:
  "nrows df = 0 \<Longrightarrow>
   transform_data df = DataFrame \<and> cols (transform_data df) = [] \<and> nrows (transform_data df) = 0"
  by (simp add: transform_data_def empty_def DataFrame_def)

theorem transform_data_zero_rows_witness:
  "nrows \<lparr>nrows = 0, cols = [(''RESOLUCION'', []), (''MODALIDAD'', [])]\<rparr> = 0 \<and>
   cols \<lparr>nrows = 0, cols = [(''RESOLUCION'', []), (''MODALIDAD'', [])]\<rparr> \<noteq> [] \<and>
   transform_data \<lparr>nrows = 0, cols = [(''RESOLUCION'', []), (''MODALIDAD'', [])]\<rparr> = DataFrame \<and>
   cols (transform_data \<lparr>nrows = 0, cols = [(''RESOLUCION'', []), (''MODALIDAD'', [])]\<rparr>) = []"
proof -
  have h: "nrows \<lparr>nrows = 0, cols = [(''RESOLUCION'', []), (''MODALIDAD'', [])]\<rparr> = 0"
    by simp
  from transform_data_zero_rows [OF h] show ?thesis
    by (simp add: DataFrame_def)
qed

subsection \<open>Facts about the two parsers\<close>









subsection \<open>The rate column\<close>




subsection \<open>No row is dropped\<close>




subsection \<open>The resolution date: one batch\<close>




subsection \<open>The validity dates: row by row\<close>



section \<open>The claim about \<^verbatim>\<open>extract_data\<close>\<close>

text \<open>
  C5, as the code has it. For every outcome of the GET, \<^verbatim>\<open>extract_data\<close> returns a
  table and raises nothing to its caller. It returns the empty table when the request
  raised, when the status code is a client or server error (400 to 599), and when the CSV
  reader raised on the body (empty or unparseable). For any other status code it returns
  the table that the CSV reader made of the response body.
\<close>

theorem extract_data_outcomes:
  "(\<exists>df. extract_data read_csv g = Inr df) \<and>
   (\<forall>e. g = Raised e \<longrightarrow> extract_data read_csv g = Inr DataFrame) \<and>
   (\<forall>st text. g = Response st text \<longrightarrow> 400 \<le> st \<longrightarrow> st < 600 \<longrightarrow>
      extract_data read_csv g = Inr DataFrame) \<and>
   (\<forall>st text e. g = Response st text \<longrightarrow> \<not> (400 \<le> st \<and> st < 600) \<longrightarrow> read_csv text = Inl e \<longrightarrow>
      extract_data read_csv g = Inr DataFrame) \<and>
   (\<forall>st text df. g = Response st text \<longrightarrow> \<not> (400 \<le> st \<and> st < 600) \<longrightarrow> read_csv text = Inr df \<longrightarrow>
      extract_data read_csv g = Inr df)"
  by (cases g)
     (auto simp: extract_data_def extract_try_def raise_for_status_def split: sum.splits)

text \<open>
  The theorem at a reader that knows one body: a success, a status 404, an empty body
  and a failed request.
\<close>

theorem extract_data_outcomes_witness:
  "extract_data (\<lambda>text. if text = ''A,B'' @ [CHR 0x0A] @ ''1,2''
                          then Inr \<lparr>nrows = 1, cols = [(''A'', [Number (Finite 1)]), (''B'', [Number (Finite 2)])]\<rparr>
                          else Inl EmptyDataError)
     (Response 200 (''A,B'' @ [CHR 0x0A] @ ''1,2'')) =
     Inr \<lparr>nrows = 1, cols = [(''A'', [Number (Finite 1)]), (''B'', [Number (Finite 2)])]\<rparr> \<and>
   extract_data (\<lambda>text. if text = ''A,B'' @ [CHR 0x0A] @ ''1,2''
                          then Inr \<lparr>nrows = 1, cols = [(''A'', [Number (Finite 1)]), (''B'', [Number (Finite 2)])]\<rparr>
                          else Inl EmptyDataError)
     (Response 404 ''Not Found'') = Inr DataFrame \<and>
   extract_data (\<lambda>text. if text = ''A,B'' @ [CHR 0x0A] @ ''1,2''
                          then Inr \<lparr>nrows = 1, cols = [(''A'', [Number (Finite 1)]), (''B'', [Number (Finite 2)])]\<rparr>
                          else Inl EmptyDataError)
     (Response 200 []) = Inr DataFrame \<and>
   extract_data (\<lambda>text. if text = ''A,B'' @ [CHR 0x0A] @ ''1,2''
                          then Inr \<lparr>nrows = 1, cols = [(''A'', [Number (Finite 1)]), (''B'', [Number (Finite 2)])]\<rparr>
                          else Inl EmptyDataError)
     (Raised RequestException) = Inr DataFrame"
proof -
  let ?rc = "\<lambda>text. if text = ''A,B'' @ [CHR 0x0A] @ ''1,2''
                          then Inr \<lparr>nrows = 1, cols = [(''A'', [Number (Finite 1)]), (''B'', [Number (Finite 2)])]\<rparr>
                          else Inl EmptyDataError"
  have a: "extract_data ?rc (Response 200 (''A,B'' @ [CHR 0x0A] @ ''1,2'')) =
      Inr \<lparr>nrows = 1, cols = [(''A'', [Number (Finite 1)]), (''B'', [Number (Finite 2)])]\<rparr>"
    using extract_data_outcomes [of ?rc "Response 200 (''A,B'' @ [CHR 0x0A] @ ''1,2'')"] by simp
  have b: "extract_data ?rc (Response 404 ''Not Found'') = Inr DataFrame"
    using extract_data_outcomes [of ?rc "Response 404 ''Not Found''"] by simp
  have c: "extract_data ?rc (Response 200 []) = Inr DataFrame"
    using extract_data_outcomes [of ?rc "Response 200 []"] by simp
  have d: "extract_data ?rc (Raised RequestException) = Inr DataFrame"
    using extract_data_outcomes [of ?rc "Raised RequestException"] by simp
  from a b c d show ?thesis by simp
qed

text \<open>
  The claim as the specification words it has every status outside 200 to 299 give the
  empty table. \<^verbatim>\<open>raise_for_status\<close> raises from 400 on only: a response with status
  300 and a CSV body gives the table of that body.
\<close>

theorem extract_data_counterexample:
  "extract_data (\<lambda>text. if text = ''A,B'' @ [CHR 0x0A] @ ''1,2''
                          then Inr \<lparr>nrows = 1, cols = [(''A'', [Number (Finite 1)]), (''B'', [Number (Finite 2)])]\<rparr>
                          else Inl EmptyDataError)
     (Response 300 (''A,B'' @ [CHR 0x0A] @ ''1,2'')) =
     Inr \<lparr>nrows = 1, cols = [(''A'', [Number (Finite 1)]), (''B'', [Number (Finite 2)])]\<rparr> \<and>
   \<not> empty \<lparr>nrows = 1, cols = [(''A'', [Number (Finite 1)]), (''B'', [Number (Finite 2)])]\<rparr>"
  by (simp add: extract_data_def extract_try_def raise_for_status_def empty_def)

section \<open>The claims about \<^verbatim>\<open>load_data\<close>\<close>

lemma empty_DataFrame: "empty DataFrame"
  by (simp add: empty_def DataFrame_def)

lemma transform_data_empty: "empty df \<Longrightarrow> transform_data df = DataFrame"
  by (simp add: transform_data_def)

lemma load_try_cases:
  "load_try f df db_name table_name st =
     (if f = ConnectFails then (False, Some SqliteError, st)
      else
        (let tables = (case files st db_name of None \<Rightarrow> Map.empty | Some db \<Rightarrow> db);
             st1 = st\<lparr>files := (files st)(db_name \<mapsto> tables),
                      open_connections := Suc (open_connections st),
                      connections_opened := Suc (connections_opened st)\<rparr>
         in if f = WriteFails then (True, Some SqliteError, st1)
            else if \<not> distinct (labels df) then (True, Some ValueError, st1)
            else (True, None, st1\<lparr>files := (files st)(db_name \<mapsto> tables(table_name \<mapsto> df))\<rparr>)))"
  by (cases "files st db_name")
     (auto simp: load_try_def connect_def to_sql_def with_index_def Let_def fun_upd_idem
           split: option.splits)

text \<open>
  C6. For every empty input table \<^verbatim>\<open>load_data\<close> does nothing and raises nothing: the
  storage, with its counters of connections, is as it was, so no connection was opened.
  The same holds for what \<^verbatim>\<open>transform_data\<close> returns for an empty table, and when the
  extractor returns an empty table the whole script leaves the storage as it was.
\<close>

theorem load_data_empty_noop:
  "(empty df \<longrightarrow> load_data f df db_name table_name st = (None, st)) \<and>
   (empty df \<longrightarrow> load_data f (transform_data df) db_name table_name st = (None, st)) \<and>
   (empty df \<longrightarrow> extract_data read_csv g = Inr df \<longrightarrow> etl_main read_csv g f st = (None, st))"
  by (simp add: load_data_def etl_main_def transform_data_empty empty_DataFrame)

text \<open>The theorem at a table with a header and no rows, and at an empty response body.\<close>

theorem load_data_empty_noop_witness:
  "empty \<lparr>nrows = 0, cols = [(''RESOLUCION'', [])]\<rparr> \<and>
   load_data NoFault \<lparr>nrows = 0, cols = [(''RESOLUCION'', [])]\<rparr> ''tibc_data.db'' ''tasas_interes_bancario''
       \<lparr>files = Map.empty, open_connections = 0, connections_opened = 0\<rparr> =
     (None, \<lparr>files = Map.empty, open_connections = 0, connections_opened = 0\<rparr>) \<and>
   extract_data (\<lambda>text. Inl EmptyDataError) (Response 200 []) = Inr DataFrame \<and>
   empty DataFrame \<and>
   etl_main (\<lambda>text. Inl EmptyDataError) (Response 200 []) NoFault
       \<lparr>files = Map.empty, open_connections = 0, connections_opened = 0\<rparr> =
     (None, \<lparr>files = Map.empty, open_connections = 0, connections_opened = 0\<rparr>)"
proof -
  let ?st = "\<lparr>files = Map.empty, open_connections = 0, connections_opened = 0\<rparr>"
  let ?df = "\<lparr>nrows = 0, cols = [(''RESOLUCION'', [])]\<rparr>"
  have e: "empty ?df" by (simp add: empty_def)
  have x: "extract_data (\<lambda>text. Inl EmptyDataError) (Response 200 []) = Inr DataFrame"
    by (simp add: extract_data_def extract_try_def raise_for_status_def)
  have a: "load_data NoFault ?df ''tibc_data.db'' ''tasas_interes_bancario'' ?st = (None, ?st)"
    using load_data_empty_noop [of ?df NoFault "''tibc_data.db''" "''tasas_interes_bancario''" ?st] e
    by blast
  have b: "etl_main (\<lambda>text. Inl EmptyDataError) (Response 200 []) NoFault ?st = (None, ?st)"
    using load_data_empty_noop [of DataFrame NoFault _ _ ?st "\<lambda>text. Inl EmptyDataError" "Response 200 []"]
      empty_DataFrame x
    by blast
  from e a x b empty_DataFrame show ?thesis by blast
qed

text \<open>
  C7. For every non-empty table, loading it twice into the same file and table leaves
  the files as loading it once does. When SQLite does not fail (and the labels of the
  table are distinct) the stored table is the loaded table itself, whatever the file
  held before: the previous contents are gone, rows do not accumulate, and there is no
  column for the row index.
\<close>

theorem load_data_idempotent:
  assumes "\<not> empty df"
  shows
    "files (snd (load_data f df db_name table_name (snd (load_data f df db_name table_name st)))) =
       files (snd (load_data f df db_name table_name st)) \<and>
     (f = NoFault \<longrightarrow> distinct (labels df) \<longrightarrow>
        files (snd (load_data f df db_name table_name st)) =
          (files st)(db_name \<mapsto>
             (case files st db_name of None \<Rightarrow> Map.empty | Some db \<Rightarrow> db)(table_name \<mapsto> df)))"
  using assms by (simp add: load_data_def load_try_cases close_def Let_def)

text \<open>
  The theorem at a file whose table held two other rows and an \<^verbatim>\<open>index\<close> column.
\<close>

theorem load_data_idempotent_witness:
  "\<not> empty \<lparr>nrows = 1, cols = [(''tasa_interes_ea'', [Number (Finite (25 / 2))])]\<rparr> \<and>
   distinct (labels \<lparr>nrows = 1, cols = [(''tasa_interes_ea'', [Number (Finite (25 / 2))])]\<rparr>) \<and>
   (case files (snd (load_data NoFault
            \<lparr>nrows = 1, cols = [(''tasa_interes_ea'', [Number (Finite (25 / 2))])]\<rparr>
            ''tibc_data.db'' ''tasas_interes_bancario''
            (snd (load_data NoFault
               \<lparr>nrows = 1, cols = [(''tasa_interes_ea'', [Number (Finite (25 / 2))])]\<rparr>
               ''tibc_data.db'' ''tasas_interes_bancario''
               \<lparr>files = [''tibc_data.db'' \<mapsto> [''tasas_interes_bancario'' \<mapsto>
                    \<lparr>nrows = 2, cols = [(''index'', [Number (Finite 0), Number (Finite 1)]),
                                         (''tasa_interes_ea'', [Missing, Missing])]\<rparr>]],
                 open_connections = 0, connections_opened = 0\<rparr>))))
         ''tibc_data.db'' of
      None \<Rightarrow> None
    | Some tables \<Rightarrow> tables ''tasas_interes_bancario'') =
     Some \<lparr>nrows = 1, cols = [(''tasa_interes_ea'', [Number (Finite (25 / 2))])]\<rparr>"
proof -
  let ?df = "\<lparr>nrows = 1, cols = [(''tasa_interes_ea'', [Number (Finite (25 / 2))])]\<rparr>"
  let ?st = "\<lparr>files = [''tibc_data.db'' \<mapsto> [''tasas_interes_bancario'' \<mapsto>
                    \<lparr>nrows = 2, cols = [(''index'', [Number (Finite 0), Number (Finite 1)]),
                                         (''tasa_interes_ea'', [Missing, Missing])]\<rparr>]],
                 open_connections = 0, connections_opened = 0\<rparr>"
  have h: "\<not> empty ?df" by (simp add: empty_def)
  have d: "distinct (labels ?df)" by (simp add: labels_def)
  from load_data_idempotent [OF h, of NoFault "''tibc_data.db''" "''tasas_interes_bancario''" ?st] d
  have "files (snd (load_data NoFault ?df ''tibc_data.db'' ''tasas_interes_bancario''
          (snd (load_data NoFault ?df ''tibc_data.db'' ''tasas_interes_bancario'' ?st)))) =
        (files ?st)(''tibc_data.db'' \<mapsto>
             (case files ?st ''tibc_data.db'' of None \<Rightarrow> Map.empty | Some db \<Rightarrow> db)
               (''tasas_interes_bancario'' \<mapsto> ?df))"
    by simp
  with h d show ?thesis by simp
qed

text \<open>
  C8. For every non-empty table and whatever SQLite does, \<^verbatim>\<open>load_data\<close> raises nothing
  to its caller and leaves as many connections open as there were before: when the
  connection was opened (one more connection opened in all), it was closed before the
  return, after a successful write and after a failed one; when opening it failed, the
  storage is as it was.
\<close>

theorem load_data_closes_connection:
  assumes "\<not> empty df"
  shows "fst (load_data f df db_name table_name st) = None \<and>
     open_connections (snd (load_data f df db_name table_name st)) = open_connections st \<and>
     (f \<noteq> ConnectFails \<longrightarrow>
        connections_opened (snd (load_data f df db_name table_name st)) =
          Suc (connections_opened st)) \<and>
     (f = ConnectFails \<longrightarrow> snd (load_data f df db_name table_name st) = st)"
  using assms by (simp add: load_data_def load_try_cases close_def Let_def)

text \<open>The theorem at a write that fails and at a write that succeeds.\<close>

theorem load_data_closes_connection_witness:
  "\<not> empty \<lparr>nrows = 1, cols = [(''tasa_interes_ea'', [Number (Finite (25 / 2))])]\<rparr> \<and>
   fst (load_data WriteFails \<lparr>nrows = 1, cols = [(''tasa_interes_ea'', [Number (Finite (25 / 2))])]\<rparr>
          ''tibc_data.db'' ''tasas_interes_bancario''
          \<lparr>files = Map.empty, open_connections = 0, connections_opened = 0\<rparr>) = None \<and>
   open_connections (snd (load_data WriteFails
          \<lparr>nrows = 1, cols = [(''tasa_interes_ea'', [Number (Finite (25 / 2))])]\<rparr>
          ''tibc_data.db'' ''tasas_interes_bancario''
          \<lparr>files = Map.empty, open_connections = 0, connections_opened = 0\<rparr>)) = 0 \<and>
   connections_opened (snd (load_data WriteFails
          \<lparr>nrows = 1, cols = [(''tasa_interes_ea'', [Number (Finite (25 / 2))])]\<rparr>
          ''tibc_data.db'' ''tasas_interes_bancario''
          \<lparr>files = Map.empty, open_connections = 0, connections_opened = 0\<rparr>)) = 1 \<and>
   open_connections (snd (load_data NoFault
          \<lparr>nrows = 1, cols = [(''tasa_interes_ea'', [Number (Finite (25 / 2))])]\<rparr>
          ''tibc_data.db'' ''tasas_interes_bancario''
          \<lparr>files = Map.empty, open_connections = 0, connections_opened = 0\<rparr>)) = 0 \<and>
   connections_opened (snd (load_data NoFault
          \<lparr>nrows = 1, cols = [(''tasa_interes_ea'', [Number (Finite (25 / 2))])]\<rparr>
          ''tibc_data.db'' ''tasas_interes_bancario''
          \<lparr>files = Map.empty, open_connections = 0, connections_opened = 0\<rparr>)) = 1"
proof -
  let ?df = "\<lparr>nrows = 1, cols = [(''tasa_interes_ea'', [Number (Finite (25 / 2))])]\<rparr>"
  let ?st = "\<lparr>files = Map.empty, open_connections = 0, connections_opened = 0\<rparr>"
  have h: "\<not> empty ?df" by (simp add: empty_def)
  from load_data_closes_connection [OF h, of WriteFails "''tibc_data.db''" "''tasas_interes_bancario''" ?st]
    load_data_closes_connection [OF h, of NoFault "''tibc_data.db''" "''tasas_interes_bancario''" ?st]
    h
  show ?thesis by simp
qed

section \<open>The claim about the visualization script\<close>

text \<open>
  C9, as the code has it. The script exits with status 1 when the database file is
  missing, and otherwise exactly when an exception ends its \<^verbatim>\<open>try\<close> block: an error
  of reading the table (the table is missing, SQLite fails), but also a column that the
  table does not have, or a failure of drawing or saving a chart. It exits with status 0
  when it runs to its end, and when the table is empty as read or after the rows without
  resolution date or rate were dropped, with a warning in these two cases. There is no
  other exit status.
\<close>

theorem visualizacion_exit_status:
  "(\<not> db_exists \<longrightarrow> visualizacion db_exists to_datetime read render = (1, [FatalNoDatabase])) \<and>
   (db_exists \<longrightarrow>
      (\<forall>e. read = Inl e \<longrightarrow> fst (visualizacion db_exists to_datetime read render) = 1) \<and>
      (\<forall>df. read = Inr df \<longrightarrow> empty df \<longrightarrow>
         visualizacion db_exists to_datetime read render = (0, [WarnEmpty])) \<and>
      (\<forall>df e. read = Inr df \<longrightarrow> \<not> empty df \<longrightarrow>
         and_then (convert_types to_datetime df) (dropna ''fecha_resolucion'' ''tasa_interes_ea'') = Inl e \<longrightarrow>
         fst (visualizacion db_exists to_datetime read render) = 1) \<and>
      (\<forall>df df2. read = Inr df \<longrightarrow> \<not> empty df \<longrightarrow>
         and_then (convert_types to_datetime df) (dropna ''fecha_resolucion'' ''tasa_interes_ea'') = Inr df2 \<longrightarrow>
         (empty df2 \<longrightarrow>
            visualizacion db_exists to_datetime read render = (0, [WarnEmptyAfterDropna])) \<and>
         (\<not> empty df2 \<longrightarrow> (\<forall>e. charts render df2 = Inl e \<longrightarrow>
            fst (visualizacion db_exists to_datetime read render) = 1)) \<and>
         (\<not> empty df2 \<longrightarrow> (\<forall>d. charts render df2 = Inr d \<longrightarrow>
            visualizacion db_exists to_datetime read render = (0, [Success]))))) \<and>
   (fst (visualizacion db_exists to_datetime read render) = 1 \<longleftrightarrow>
      \<not> db_exists \<or> (\<exists>e. snd (visualizacion_try to_datetime read render) = Some (Exception e))) \<and>
   (fst (visualizacion db_exists to_datetime read render) = 0 \<or>
    fst (visualizacion db_exists to_datetime read render) = 1)"
proof -
  have a: "\<not> db_exists \<longrightarrow> visualizacion db_exists to_datetime read render = (1, [FatalNoDatabase])"
    by (simp add: visualizacion_def)
  have b: "db_exists \<longrightarrow>
      (\<forall>e. read = Inl e \<longrightarrow> fst (visualizacion db_exists to_datetime read render) = 1) \<and>
      (\<forall>df. read = Inr df \<longrightarrow> empty df \<longrightarrow>
         visualizacion db_exists to_datetime read render = (0, [WarnEmpty])) \<and>
      (\<forall>df e. read = Inr df \<longrightarrow> \<not> empty df \<longrightarrow>
         and_then (convert_types to_datetime df) (dropna ''fecha_resolucion'' ''tasa_interes_ea'') = Inl e \<longrightarrow>
         fst (visualizacion db_exists to_datetime read render) = 1) \<and>
      (\<forall>df df2. read = Inr df \<longrightarrow> \<not> empty df \<longrightarrow>
         and_then (convert_types to_datetime df) (dropna ''fecha_resolucion'' ''tasa_interes_ea'') = Inr df2 \<longrightarrow>
         (empty df2 \<longrightarrow>
            visualizacion db_exists to_datetime read render = (0, [WarnEmptyAfterDropna])) \<and>
         (\<not> empty df2 \<longrightarrow> (\<forall>e. charts render df2 = Inl e \<longrightarrow>
            fst (visualizacion db_exists to_datetime read render) = 1)) \<and>
         (\<not> empty df2 \<longrightarrow> (\<forall>d. charts render df2 = Inr d \<longrightarrow>
            visualizacion db_exists to_datetime read render = (0, [Success]))))"
    by (simp add: visualizacion_def visualizacion_try_def)
  have c: "fst (visualizacion db_exists to_datetime read render) = 1 \<longleftrightarrow>
      \<not> db_exists \<or> (\<exists>e. snd (visualizacion_try to_datetime read render) = Some (Exception e))"
    by (auto simp: visualizacion_def visualizacion_try_def
          split: sum.splits option.splits control.splits prod.splits if_splits)
  have d: "fst (visualizacion db_exists to_datetime read render) = 0 \<or>
    fst (visualizacion db_exists to_datetime read render) = 1"
    by (auto simp: visualizacion_def visualizacion_try_def
          split: sum.splits option.splits control.splits prod.splits if_splits)
  from a b c d show ?thesis by blast
qed

text \<open>
  The theorem at a missing database file, at a table of two rows of which one has no
  resolution date, and at a missing table.
\<close>

theorem visualizacion_exit_status_witness:
  "visualizacion False
     (map (\<lambda>c. if c = Text ''2014-12-22 00:00:00'' then Datetime (Timestamp 2014 12 22) else Missing))
     (Inl SqliteError) (\<lambda>k. None) = (1, [FatalNoDatabase]) \<and>
   \<not> empty \<lparr>nrows = 2, cols = [(''fecha_resolucion'', [Text ''2014-12-22 00:00:00'', Missing]),
                              (''vigencia_desde'', [Missing, Missing]),
                              (''vigencia_hasta'', [Missing, Missing]),
                              (''tasa_interes_ea'', [Number (Finite (25 / 2)), Number (Finite 13)]),
                              (''tipo_credito_nombre'', [Text ''Consumo'', Text ''Consumo''])]\<rparr> \<and>
   and_then (convert_types
       (map (\<lambda>c. if c = Text ''2014-12-22 00:00:00'' then Datetime (Timestamp 2014 12 22) else Missing))
       \<lparr>nrows = 2, cols = [(''fecha_resolucion'', [Text ''2014-12-22 00:00:00'', Missing]),
                              (''vigencia_desde'', [Missing, Missing]),
                              (''vigencia_hasta'', [Missing, Missing]),
                              (''tasa_interes_ea'', [Number (Finite (25 / 2)), Number (Finite 13)]),
                              (''tipo_credito_nombre'', [Text ''Consumo'', Text ''Consumo''])]\<rparr>)
     (dropna ''fecha_resolucion'' ''tasa_interes_ea'') =
     Inr \<lparr>nrows = 1, cols = [(''fecha_resolucion'', [Datetime (Timestamp 2014 12 22)]),
                              (''vigencia_desde'', [Missing]),
                              (''vigencia_hasta'', [Missing]),
                              (''tasa_interes_ea'', [Number (Finite (25 / 2))]),
                              (''tipo_credito_nombre'', [Text ''Consumo''])]\<rparr> \<and>
   visualizacion True
     (map (\<lambda>c. if c = Text ''2014-12-22 00:00:00'' then Datetime (Timestamp 2014 12 22) else Missing))
     (Inr \<lparr>nrows = 2, cols = [(''fecha_resolucion'', [Text ''2014-12-22 00:00:00'', Missing]),
                              (''vigencia_desde'', [Missing, Missing]),
                              (''vigencia_hasta'', [Missing, Missing]),
                              (''tasa_interes_ea'', [Number (Finite (25 / 2)), Number (Finite 13)]),
                              (''tipo_credito_nombre'', [Text ''Consumo'', Text ''Consumo''])]\<rparr>)
     (\<lambda>k. None) = (0, [Success]) \<and>
   visualizacion True
     (map (\<lambda>c. if c = Text ''2014-12-22 00:00:00'' then Datetime (Timestamp 2014 12 22) else Missing))
     (Inl DatabaseError) (\<lambda>k. None) = (1, [ErrorUnexpected])"
proof -
  let ?conv = "map (\<lambda>c. if c = Text ''2014-12-22 00:00:00'' then Datetime (Timestamp 2014 12 22) else Missing)"
  let ?df = "\<lparr>nrows = 2, cols = [(''fecha_resolucion'', [Text ''2014-12-22 00:00:00'', Missing]),
                              (''vigencia_desde'', [Missing, Missing]),
                              (''vigencia_hasta'', [Missing, Missing]),
                              (''tasa_interes_ea'', [Number (Finite (25 / 2)), Number (Finite 13)]),
                              (''tipo_credito_nombre'', [Text ''Consumo'', Text ''Consumo''])]\<rparr>"
  let ?df2 = "\<lparr>nrows = 1, cols = [(''fecha_resolucion'', [Datetime (Timestamp 2014 12 22)]),
                              (''vigencia_desde'', [Missing]),
                              (''vigencia_hasta'', [Missing]),
                              (''tasa_interes_ea'', [Number (Finite (25 / 2))]),
                              (''tipo_credito_nombre'', [Text ''Consumo''])]\<rparr>"
  have e: "\<not> empty ?df" and e2: "\<not> empty ?df2" by (simp_all add: empty_def)
  have cv: "and_then (convert_types ?conv ?df) (dropna ''fecha_resolucion'' ''tasa_interes_ea'') = Inr ?df2"
    by code_simp
  have ch: "charts (\<lambda>k. None) ?df2 = Inr ?df2"
    by code_simp
  have a: "visualizacion False ?conv (Inl SqliteError) (\<lambda>k. None) = (1, [FatalNoDatabase])"
    using visualizacion_exit_status [of False ?conv "Inl SqliteError" "\<lambda>k. None"] by blast
  have b: "visualizacion True ?conv (Inr ?df) (\<lambda>k. None) = (0, [Success])"
    using visualizacion_exit_status [of True ?conv "Inr ?df" "\<lambda>k. None"] e e2 cv ch by blast
  have c: "visualizacion True ?conv (Inl DatabaseError) (\<lambda>k. None) = (1, [ErrorUnexpected])"
    by code_simp
  from a e cv b c show ?thesis by blast
qed

text \<open>
  The claim as the specification words it has status 1 exactly for a missing database
  file, a missing table or a read error. Here the file is there and the table is read
  without error, and the status is 1: in the first run the table has no column
  \<^verbatim>\<open>fecha_resolucion\<close>, in the second saving the first chart fails.
\<close>

theorem visualizacion_counterexample:
  "visualizacion True (\<lambda>cs. cs)
     (Inr \<lparr>nrows = 1, cols = [(''resolucion_id'', [Text ''R-2014'']),
                              (''tasa_interes_ea'', [Number (Finite (25 / 2))])]\<rparr>)
     (\<lambda>k. None) = (1, [ErrorUnexpected]) \<and>
   visualizacion True
     (map (\<lambda>c. if c = Text ''2014-12-22 00:00:00'' then Datetime (Timestamp 2014 12 22) else Missing))
     (Inr \<lparr>nrows = 1, cols = [(''fecha_resolucion'', [Text ''2014-12-22 00:00:00'']),
                              (''vigencia_desde'', [Missing]),
                              (''vigencia_hasta'', [Missing]),
                              (''tasa_interes_ea'', [Number (Finite (25 / 2))]),
                              (''tipo_credito_nombre'', [Text ''Consumo''])]\<rparr>)
     (\<lambda>k. if k = 1 then Some OSError else None) = (1, [ErrorUnexpected])"
  by code_simp

end
